theory Spec2Isabelle
  imports Main
begin

section \<open>Package verification (autospec/verify\_sign.py)\<close>

text \<open>
  A shallow embedding of \<^verbatim>\<open>autospec/verify_sign.py\<close>. Python values are
  modelled by HOL data, every \<^verbatim>\<open>raise\<close> is a value \<open>Inl e\<close> of a sum type, and
  everything the module asks of the outside (the file system, the gpg tool, the
  gpgme binding, pycurl, json, hashlib) is read from an explicit world record.

  Text is modelled by \<open>string\<close>; the character classes used below
  (\<^verbatim>\<open>\d\<close>, \<^verbatim>\<open>str.strip\<close>, \<^verbatim>\<open>str.upper\<close>) are those of Python on ASCII text,
  which is what gpg prints and what package paths are made of.
\<close>

subsection \<open>Exceptions\<close>

datatype exn =
    NameError
  | AttributeError
  | TypeError
  | ValueError
  | IndexError
  | KeyError
  | OSError
  | PycurlError
  | JSONDecodeError
  | UnicodeDecodeError
  | GpgmeError
  | Exception' string

subsection \<open>The string operations the module uses\<close>

text \<open>\<^verbatim>\<open>str.rfind(c)\<close> for a single character: the last index, or \<open>-1\<close>.\<close>

fun rfind_from :: "char \<Rightarrow> string \<Rightarrow> int \<Rightarrow> int \<Rightarrow> int" where
  "rfind_from c [] i found = found"
| "rfind_from c (x # xs) i found = rfind_from c xs (i + 1) (if x = c then i else found)"

definition rfind :: "string \<Rightarrow> char \<Rightarrow> int" where
  "rfind p c = rfind_from c p 0 (- 1)"

text \<open>\<^verbatim>\<open>posixpath.basename\<close>: \<^verbatim>\<open>i = p.rfind('/') + 1; return p[i:]\<close>.\<close>

definition basename :: "string \<Rightarrow> string" where
  "basename p = drop (nat (rfind p (CHR ''/'') + 1)) p"

text \<open>
  \<^verbatim>\<open>posixpath.splitext\<close> (\<^verbatim>\<open>genericpath._splitext\<close> with separator \<^verbatim>\<open>/\<close>
  and no alternative separator): the extension starts at the last dot, when that
  dot lies after the last separator and is preceded, within the file name, by a
  character that is not a dot.
\<close>

function splitext_loop :: "string \<Rightarrow> int \<Rightarrow> int \<Rightarrow> (string \<times> string) option" where
  "splitext_loop p filenameIndex dotIndex =
     (if filenameIndex < dotIndex then
        (if take 1 (drop (nat filenameIndex) p) \<noteq> ''.''
         then Some (take (nat dotIndex) p, drop (nat dotIndex) p)
         else splitext_loop p (filenameIndex + 1) dotIndex)
      else None)"
  by pat_completeness auto
termination
  by (relation "measure (\<lambda>(p, filenameIndex, dotIndex). nat (dotIndex - filenameIndex))") auto

declare splitext_loop.simps [simp del]

definition splitext :: "string \<Rightarrow> string \<times> string" where
  "splitext p =
     (let sepIndex = rfind p (CHR ''/'');
          dotIndex = rfind p (CHR ''.'')
      in if dotIndex > sepIndex then
           (case splitext_loop p (sepIndex + 1) dotIndex of
              Some r \<Rightarrow> r
            | None \<Rightarrow> (p, []))
         else (p, []))"

text \<open>
  \<^verbatim>\<open>str.replace(old, new)\<close>: every non-overlapping occurrence, left to right;
  an empty \<^verbatim>\<open>old\<close> matches before every character and at the end.
\<close>

function replace_nonempty :: "string \<Rightarrow> string \<Rightarrow> string \<Rightarrow> string" where
  "replace_nonempty old new [] = []"
| "replace_nonempty old new (c # cs) =
     (if old \<noteq> [] \<and> take (length old) (c # cs) = old
      then new @ replace_nonempty old new (drop (length old) (c # cs))
      else c # replace_nonempty old new cs)"
  by pat_completeness auto
termination
  by (relation "measure (\<lambda>(old, new, s). length s)") auto

definition replace :: "string \<Rightarrow> string \<Rightarrow> string \<Rightarrow> string" where
  "replace s old new =
     (if old = [] then new @ concat (map (\<lambda>c. c # new) s)
      else replace_nonempty old new s)"

text \<open>\<^verbatim>\<open>str.index(sub)\<close>: the first index of \<^verbatim>\<open>sub\<close>, or \<^verbatim>\<open>ValueError\<close>.\<close>

fun find_sub :: "string \<Rightarrow> string \<Rightarrow> nat option" where
  "find_sub sub [] = (if sub = [] then Some 0 else None)"
| "find_sub sub (c # cs) =
     (if take (length sub) (c # cs) = sub then Some 0
      else map_option Suc (find_sub sub cs))"

definition index :: "string \<Rightarrow> string \<Rightarrow> exn + nat" where
  "index s sub = (case find_sub sub s of None \<Rightarrow> Inl ValueError | Some i \<Rightarrow> Inr i)"

text \<open>\<^verbatim>\<open>str.strip()\<close> and \<^verbatim>\<open>str.upper()\<close> on ASCII text.\<close>

definition isspace :: "char \<Rightarrow> bool" where
  "isspace c \<longleftrightarrow>
     c \<in> set [CHR 0x09, CHR 0x0A, CHR 0x0B, CHR 0x0C, CHR 0x0D,
               CHR 0x1C, CHR 0x1D, CHR 0x1E, CHR 0x1F, CHR 0x20]"

definition strip :: "string \<Rightarrow> string" where
  "strip s = rev (dropWhile isspace (rev (dropWhile isspace s)))"

definition upper_char :: "char \<Rightarrow> char" where
  "upper_char c =
     (case map_of (zip ''abcdefghijklmnopqrstuvwxyz'' ''ABCDEFGHIJKLMNOPQRSTUVWXYZ'') c of
        Some u \<Rightarrow> u
      | None \<Rightarrow> c)"

definition upper :: "string \<Rightarrow> string" where
  "upper s = map upper_char s"

subsection \<open>The verifier dispatcher\<close>

text \<open>
  \<^verbatim>\<open>VERIFIER_TYPES\<close> maps an extension to a class; \<^verbatim>\<open>get_verifier\<close> returns the
  class itself (or \<^verbatim>\<open>None\<close>) and constructs nothing.
\<close>

datatype verifier_class = GPGVerifier | GEMShaVerifier

definition VERIFIER_TYPES :: "string \<rightharpoonup> verifier_class" where
  "VERIFIER_TYPES = [''.gz'' \<mapsto> GPGVerifier, ''.gem'' \<mapsto> GEMShaVerifier]"

definition get_file_ext :: "string \<Rightarrow> string" where
  "get_file_ext filename = snd (splitext filename)"

definition get_verifier :: "string \<Rightarrow> verifier_class option" where
  "get_verifier filename = (let ext = get_file_ext filename in VERIFIER_TYPES ext)"

subsection \<open>The world the module runs in\<close>

type_synonym path = string

text \<open>
  What is mutated: regular files with their contents, directories, the
  \<^verbatim>\<open>GNUPGHOME\<close> entry of \<^verbatim>\<open>os.environ\<close>, the lines printed, and a log of the
  calls of the signature engine (\<^verbatim>\<open>verify_cli\<close> or \<^verbatim>\<open>verify_gpgme\<close>) with their
  arguments.
\<close>

record world =
  files :: "path \<rightharpoonup> string"
  dirs :: "path set"
  GNUPGHOME :: "path option"
  printed :: "string list"
  engine_log :: "(path option \<times> path \<times> path) list"

text \<open>A finished sub-process, or \<^verbatim>\<open>Popen\<close> itself raising.\<close>

datatype proc_result =
    PopenRaises
  | Exited (proc_out: string) (proc_err: string) (returncode: int)

text \<open>
  \<^verbatim>\<open>curl.perform()\<close>: a \<^verbatim>\<open>pycurl.error\<close> (with the bytes written so far and the
  text of its \<^verbatim>\<open>args\<close>), or a finished transfer with its body and final status.
\<close>

datatype curl_result =
    CurlError (partial: string) (error_args: string)
  | CurlDone (body: string) (http_code: int)

text \<open>Values that \<^verbatim>\<open>json.loads\<close> returns.\<close>

datatype pyval =
    PNone
  | PBool bool
  | PInt int
  | PFloat int int
  | PStr string
  | PList "pyval list"
  | PDict "(string \<times> pyval) list"

text \<open>
  What the module asks of the outside and cannot compute itself. \<open>GPG_CLI\<close> is the
  module-level flag set when \<^verbatim>\<open>import gpgme\<close> fails; \<open>module_dir\<close> is
  \<^verbatim>\<open>os.path.dirname(os.path.abspath(__file__))\<close>; \<open>popen\<close> is the result of running an
  argument vector given the files and \<^verbatim>\<open>GNUPGHOME\<close>; \<open>mkdtemp_name\<close> is the name
  \<^verbatim>\<open>tempfile.mkdtemp\<close> would pick; \<open>writable\<close> says whether \<^verbatim>\<open>open(p, 'wb')\<close>
  succeeds; \<open>sha256_hex\<close> is the SHA-256 hex digest of a byte string;
  \<open>gpgme_context\<close>, \<open>gpgme_import\<close> and \<open>gpgme_verify\<close> are the gpgme binding:
  what creating a context raises, what importing and looking up a key raises, and
  the signature check with the status of the first signature (\<open>None\<close> for a good
  one, otherwise the error text).
\<close>

record env =
  GPG_CLI :: bool
  module_dir :: path
  popen :: "(path \<rightharpoonup> string) \<Rightarrow> path option \<Rightarrow> string list \<Rightarrow> proc_result"
  mkdtemp_name :: path
  writable :: "path \<Rightarrow> bool"
  curl_perform :: "string option \<Rightarrow> curl_result"
  json_loads :: "string \<Rightarrow> pyval option"
  sha256_hex :: "string \<Rightarrow> string"
  gpgme_context :: "exn option"
  gpgme_import :: "path option \<Rightarrow> string \<Rightarrow> exn option"
  gpgme_verify :: "path option \<Rightarrow> string \<Rightarrow> string \<Rightarrow> exn + string option"

definition print :: "string \<Rightarrow> world \<Rightarrow> world" where
  "print line w = w\<lparr>printed := printed w @ [line]\<rparr>"

definition exists :: "world \<Rightarrow> path \<Rightarrow> bool" where
  "exists w p \<longleftrightarrow> files w p \<noteq> None \<or> p \<in> dirs w"

definition SEPT :: string where
  "SEPT = replicate 79 (CHR ''-'')"

definition print_success :: "string \<Rightarrow> world \<Rightarrow> world" where
  "print_success msg w = print ([CHR 0x1B] @ ''[92mSUCCESS:'' @ [CHR 0x1B] @ ''[0m '' @ msg) w"

definition print_error :: "string \<Rightarrow> world \<Rightarrow> world" where
  "print_error msg w = print ([CHR 0x1B] @ ''[91mERROR  :'' @ [CHR 0x1B] @ ''[0m '' @ msg) w"

subsection \<open>Key-identifier extraction\<close>

text \<open>
  \<^verbatim>\<open>Popen\<close> is imported only in the branch where \<^verbatim>\<open>import gpgme\<close> failed, so
  with gpgme present the name is unbound. The bytes gpg prints are taken as
  decoded text.
\<close>

definition parse_keyid :: "env \<Rightarrow> path \<Rightarrow> world \<Rightarrow> (exn + string option) \<times> world" where
  "parse_keyid E sig_filename w =
     (if \<not> GPG_CLI E then (Inl NameError, w)
      else
        (case popen E (files w) (GNUPGHOME w) [''gpg'', ''--list-packet'', sig_filename] of
           PopenRaises \<Rightarrow> (Inl OSError, w)
         | Exited out err code \<Rightarrow>
             if err \<noteq> [] then (Inr None, print err w)
             else
               (case index out ''keyid'' of
                  Inl e \<Rightarrow> (Inl e, w)
                | Inr i \<Rightarrow>
                    let ai = i + length ''keyid '' in
                    (case index (drop ai out) [CHR 0x0A] of
                       Inl e \<Rightarrow> (Inl e, w)
                     | Inr j \<Rightarrow>
                         let bi = ai + j in
                         (Inr (Some (strip (take (bi - ai) (drop ai out)))), w)))))"

definition get_keyid :: "env \<Rightarrow> path \<Rightarrow> world \<Rightarrow> (exn + string) \<times> world" where
  "get_keyid E sig_filename w =
     (case parse_keyid E sig_filename w of
        (Inl e, w') \<Rightarrow> (Inl e, w')
      | (Inr None, w') \<Rightarrow> (Inl AttributeError, w')
      | (Inr (Some keyid), w') \<Rightarrow> (Inr (upper keyid), w'))"

subsection \<open>The fetcher\<close>

text \<open>
  \<^verbatim>\<open>open(sign_filename, 'wb')\<close> creates or truncates the destination before the
  transfer starts. Only the branch for a status other than 200 unlinks it.
\<close>

definition attempt_to_download ::
  "env \<Rightarrow> string option \<Rightarrow> path \<Rightarrow> world \<Rightarrow> (exn + int option) \<times> world" where
  "attempt_to_download E url sign_filename w =
     (if \<not> writable E sign_filename then (Inl OSError, w)
      else
        let w1 = w\<lparr>files := (files w)(sign_filename \<mapsto> [])\<rparr> in
        (case curl_perform E url of
           CurlError written args \<Rightarrow>
             (Inr None, print args (w1\<lparr>files := (files w1)(sign_filename \<mapsto> written)\<rparr>))
         | CurlDone content code \<Rightarrow>
             let w2 = w1\<lparr>files := (files w1)(sign_filename \<mapsto> content)\<rparr> in
             if code \<noteq> 200
             then (Inr (Some code), w2\<lparr>files := (files w2)(sign_filename := None)\<rparr>)
             else (Inr (Some code), w2)))"

subsection \<open>Temporary keyrings\<close>

text \<open>
  \<^verbatim>\<open>tempfile.mkdtemp\<close> creates a directory that did not exist, or raises.
  \<^verbatim>\<open>shutil.rmtree(d, ignore_errors=True)\<close> removes the directory \<open>d\<close> and all
  below it, and never raises. Files that gpg itself writes below \<^verbatim>\<open>GNUPGHOME\<close>
  are not tracked.
\<close>

definition mkdtemp :: "env \<Rightarrow> world \<Rightarrow> (exn + path) \<times> world" where
  "mkdtemp E w =
     (let t = mkdtemp_name E in
      if exists w t then (Inl OSError, w)
      else (Inr t, w\<lparr>dirs := insert t (dirs w)\<rparr>))"

definition below :: "path \<Rightarrow> path \<Rightarrow> bool" where
  "below d p \<longleftrightarrow> take (length d + 1) p = d @ ''/''"

definition rmtree :: "path \<Rightarrow> world \<Rightarrow> world" where
  "rmtree d w =
     (if d \<in> dirs w
      then w\<lparr>files := (\<lambda>p. if below d p then None else files w p),
              dirs := {p \<in> dirs w. p \<noteq> d \<and> \<not> below d p}\<rparr>
      else w)"

subsection \<open>The command-line engine\<close>

definition exec_cmd :: "env \<Rightarrow> string list \<Rightarrow> world \<Rightarrow> proc_result" where
  "exec_cmd E args w = popen E (files w) (GNUPGHOME w) args"

record gpgcli =
  cli_args :: "string list"

definition GPGCli_init ::
  "env \<Rightarrow> path option \<Rightarrow> path option \<Rightarrow> world \<Rightarrow> (exn + gpgcli) \<times> world" where
  "GPGCli_init E pubkey home w =
     (case pubkey of
        None \<Rightarrow> (Inr \<lparr>cli_args = [''gpg'', ''--verify'']\<rparr>, w)
      | Some pk \<Rightarrow>
          (case (case home of Some h \<Rightarrow> (Inr h, w) | None \<Rightarrow> mkdtemp E w) of
             (Inl e, w1) \<Rightarrow> (Inl e, w1)
           | (Inr gpghome, w1) \<Rightarrow>
               let w2 = w1\<lparr>GNUPGHOME := Some gpghome\<rparr> in
               (case exec_cmd E [''gpg'', ''--import'', pk] w2 of
                  PopenRaises \<Rightarrow> (Inl OSError, w2)
                | Exited out err code \<Rightarrow>
                    if code \<noteq> 0 then (Inl (Exception' err), w2)
                    else (Inr \<lparr>cli_args = [''gpg'', ''--verify'']\<rparr>, w2))))"

text \<open>\<^verbatim>\<open>GPGCli.verify\<close>: \<open>None\<close> for exit code 0, otherwise the text of stderr.\<close>

definition GPGCli_verify ::
  "env \<Rightarrow> gpgcli \<Rightarrow> path \<Rightarrow> path \<Rightarrow> world \<Rightarrow> (exn + string option) \<times> world" where
  "GPGCli_verify E self tarfile signature w =
     (let args = cli_args self @ [signature, tarfile] in
      case exec_cmd E args w of
        PopenRaises \<Rightarrow> (Inl OSError, w)
      | Exited out err code \<Rightarrow>
          if code = 0 then (Inr None, w) else (Inr (Some err), w))"

text \<open>
  The context manager \<^verbatim>\<open>cli_gpg_ctx\<close> around the body of a \<^verbatim>\<open>with\<close> block. The
  \<^verbatim>\<open>finally\<close> clause runs after the \<^verbatim>\<open>try\<close> part whatever its result; an
  exception raised in it replaces that result.
\<close>

definition cli_gpg_ctx ::
  "env \<Rightarrow> path option \<Rightarrow> path option \<Rightarrow>
   (gpgcli \<Rightarrow> world \<Rightarrow> (exn + 'a) \<times> world) \<Rightarrow> world \<Rightarrow> (exn + 'a) \<times> world" where
  "cli_gpg_ctx E pubkey gpghome with_body w =
     (case pubkey of
        None \<Rightarrow>
          (case GPGCli_init E None None w of
             (Inl e, w1) \<Rightarrow> (Inl e, w1)
           | (Inr ctx, w1) \<Rightarrow> with_body ctx w1)
      | Some pk \<Rightarrow>
          (case (case (case gpghome of Some h \<Rightarrow> (Inr h, w) | None \<Rightarrow> mkdtemp E w) of
                   (Inl e, w1) \<Rightarrow> (Inl e, None, w1)
                 | (Inr h, w1) \<Rightarrow>
                     (case GPGCli_init E (Some pk) (Some h) w1 of
                        (Inl e, w2) \<Rightarrow> (Inl e, Some h, w2)
                      | (Inr ctx, w2) \<Rightarrow>
                          (case with_body ctx w2 of (r, w3) \<Rightarrow> (r, Some h, w3)))) of
             (tried, gpghome', w3) \<Rightarrow>
               if gpghome = None then
                 (case GNUPGHOME w3 of
                    None \<Rightarrow> (Inl KeyError, w3)
                  | Some g \<Rightarrow>
                      let w4 = w3\<lparr>GNUPGHOME := None\<rparr> in
                      (tried, case gpghome' of None \<Rightarrow> w4 | Some h \<Rightarrow> rmtree h w4))
               else (tried, w3)))"

definition verify_cli ::
  "env \<Rightarrow> path option \<Rightarrow> path \<Rightarrow> path \<Rightarrow> path option \<Rightarrow> world \<Rightarrow>
   (exn + string option) \<times> world" where
  "verify_cli E pubkey tarball signature gpghome w =
     cli_gpg_ctx E pubkey gpghome
       (\<lambda>ctx. GPGCli_verify E ctx tarball signature)
       (w\<lparr>engine_log := engine_log w @ [(pubkey, tarball, signature)]\<rparr>)"

subsection \<open>The gpgme engine\<close>

text \<open>
  The name \<^verbatim>\<open>_gpg\<close> is bound only when \<^verbatim>\<open>import gpgme\<close> succeeded. In
  \<^verbatim>\<open>gpg_ctx\<close> the temporary directory is made before the \<^verbatim>\<open>try\<close>, whether or not
  the caller passed \<^verbatim>\<open>gpghome\<close>.
\<close>

definition gpg_Context :: "env \<Rightarrow> exn option" where
  "gpg_Context E = (if GPG_CLI E then Some NameError else gpgme_context E)"

definition gpg_ctx ::
  "env \<Rightarrow> path option \<Rightarrow> path option \<Rightarrow>
   (world \<Rightarrow> (exn + 'a) \<times> world) \<Rightarrow> world \<Rightarrow> (exn + 'a) \<times> world" where
  "gpg_ctx E pubkey gpghome with_body w =
     (case pubkey of
        None \<Rightarrow>
          (case gpg_Context E of Some e \<Rightarrow> (Inl e, w) | None \<Rightarrow> with_body w)
      | Some pk \<Rightarrow>
          (case mkdtemp E w of
             (Inl e, w1) \<Rightarrow> (Inl e, w1)
           | (Inr h, w1) \<Rightarrow>
               let w2 = w1\<lparr>GNUPGHOME := Some h\<rparr> in
               (case (case gpg_Context E of
                        Some e \<Rightarrow> (Inl e, w2)
                      | None \<Rightarrow>
                          (case files w2 pk of
                             None \<Rightarrow> (Inl OSError, w2)
                           | Some keydata \<Rightarrow>
                               (case gpgme_import E (Some h) keydata of
                                  Some e \<Rightarrow> (Inl e, w2)
                                | None \<Rightarrow> with_body w2))) of
                  (tried, w3) \<Rightarrow>
                    if gpghome = None then
                      (case GNUPGHOME w3 of
                         None \<Rightarrow> (Inl KeyError, w3)
                       | Some g \<Rightarrow> (tried, rmtree h (w3\<lparr>GNUPGHOME := None\<rparr>)))
                    else (tried, w3))))"

definition verify_gpgme ::
  "env \<Rightarrow> path option \<Rightarrow> path \<Rightarrow> path \<Rightarrow> path option \<Rightarrow> world \<Rightarrow>
   (exn + string option) \<times> world" where
  "verify_gpgme E pubkey tarball signature gpghome w =
     (let w0 = w\<lparr>engine_log := engine_log w @ [(pubkey, tarball, signature)]\<rparr> in
      case files w0 signature of
        None \<Rightarrow> (Inl OSError, w0)
      | Some sigdata \<Rightarrow>
          (case files w0 tarball of
             None \<Rightarrow> (Inl OSError, w0)
           | Some tardata \<Rightarrow>
               gpg_ctx E pubkey gpghome
                 (\<lambda>w'. case gpgme_verify E (GNUPGHOME w') sigdata tardata of
                          Inl e \<Rightarrow> (Inl e, w')
                        | Inr status \<Rightarrow> (Inr status, w'))
                 w0))"

subsection \<open>Verifier objects\<close>

text \<open>
  An instance is its attribute dictionary; every attribute of these classes holds
  a string or \<^verbatim>\<open>None\<close>. Reading an attribute that was never assigned raises
  \<^verbatim>\<open>AttributeError\<close>. Keyword arguments are a dictionary of the same kind, read
  with \<^verbatim>\<open>kwargs.get(k, None)\<close>.
\<close>

type_synonym obj = "string \<rightharpoonup> string option"

definition getattr :: "obj \<Rightarrow> string \<Rightarrow> exn + string option" where
  "getattr self name = (case self name of None \<Rightarrow> Inl AttributeError | Some v \<Rightarrow> Inr v)"

definition kwargs_get :: "obj \<Rightarrow> string \<Rightarrow> string option" where
  "kwargs_get kwargs k = (case kwargs k of None \<Rightarrow> None | Some v \<Rightarrow> v)"

definition Verifier_init :: "obj \<Rightarrow> world \<Rightarrow> obj \<times> world" where
  "Verifier_init kwargs w =
     ([''url'' \<mapsto> kwargs_get kwargs ''url'',
       ''package_sign_path'' \<mapsto> kwargs_get kwargs ''package_sign_path''],
      print SEPT w)"

text \<open>\<^verbatim>\<open>str.format\<close> of a string or \<^verbatim>\<open>None\<close>, and of an integer.\<close>

definition str_opt :: "string option \<Rightarrow> string" where
  "str_opt v = (case v of None \<Rightarrow> ''None'' | Some s \<Rightarrow> s)"

function str_nat :: "nat \<Rightarrow> string" where
  "str_nat n =
     (if n < 10 then [''0123456789'' ! n]
      else str_nat (n div 10) @ [''0123456789'' ! (n mod 10)])"
  by pat_completeness auto
termination
  by (relation "measure (\<lambda>n. n)") auto

declare str_nat.simps [simp del]

definition str_int :: "int \<Rightarrow> string" where
  "str_int i = (if i < 0 then ''-'' @ str_nat (nat (- i)) else str_nat (nat i))"

text \<open>
  \<^verbatim>\<open>Verifier.print_result\<close>; the first argument is tested for truth, and
  \<^verbatim>\<open>GPGVerifier.verify\<close> passes a path there on success.
\<close>

definition print_result :: "obj \<Rightarrow> bool \<Rightarrow> string \<Rightarrow> world \<Rightarrow> (exn + unit) \<times> world" where
  "print_result self result err_msg w =
     (case getattr self ''url'' of
        Inl e \<Rightarrow> (Inl e, w)
      | Inr u \<Rightarrow>
          let package_name = (case u of None \<Rightarrow> [] | Some url \<Rightarrow> basename url) in
          if result
          then (Inr (), print_success (package_name @ '' verification was successful'') w)
          else (Inr (), print_error (package_name @ '' verification failed '' @ err_msg) w))"

subsection \<open>The GPG strategy\<close>

definition GPGVerifier_init :: "obj \<Rightarrow> world \<Rightarrow> (exn + obj) \<times> world" where
  "GPGVerifier_init kwargs w =
     (case Verifier_init kwargs w of
        (self0, w1) \<Rightarrow>
          let self1 = self0(''key_url'' \<mapsto> kwargs_get kwargs ''key_url'',
                            ''package_path'' \<mapsto> kwargs_get kwargs ''package_path'');
              self2 = (case (kwargs_get kwargs ''key_url'', kwargs_get kwargs ''url'') of
                         (None, Some url) \<Rightarrow> self1(''key_url'' \<mapsto> Some (url @ ''.asc''))
                       | _ \<Rightarrow> self1)
          in (case kwargs_get kwargs ''package_sign_path'' of
                Some sp \<Rightarrow> (Inr self2, w1)
              | None \<Rightarrow>
                  (case kwargs_get kwargs ''package_path'' of
                     None \<Rightarrow> (Inl TypeError, w1)
                   | Some pp \<Rightarrow>
                       (Inr (self2(''package_sign_path'' \<mapsto> Some (pp @ ''.asc''))), w1))))"

text \<open>\<^verbatim>\<open>os.path.exists\<close>; it raises \<^verbatim>\<open>TypeError\<close> on \<^verbatim>\<open>None\<close>.\<close>

definition path_exists :: "world \<Rightarrow> string option \<Rightarrow> exn + bool" where
  "path_exists w p = (case p of None \<Rightarrow> Inl TypeError | Some q \<Rightarrow> Inr (exists w q))"

definition pubkey_path :: "env \<Rightarrow> string \<Rightarrow> path" where
  "pubkey_path E keyid = module_dir E @ ''/'' @ ''keyring'' @ ''/'' @ keyid @ ''.pkey''"

definition get_pubkey_path :: "env \<Rightarrow> obj \<Rightarrow> world \<Rightarrow> (exn + path) \<times> world" where
  "get_pubkey_path E self w =
     (case getattr self ''package_sign_path'' of
        Inl e \<Rightarrow> (Inl e, w)
      | Inr None \<Rightarrow> (Inl TypeError, w)
      | Inr (Some sp) \<Rightarrow>
          (case get_keyid E sp w of
             (Inl e, w1) \<Rightarrow> (Inl e, w1)
           | (Inr keyid, w1) \<Rightarrow> (Inr (pubkey_path E keyid), w1)))"

text \<open>\<^verbatim>\<open>get_sign\<close> returns \<^verbatim>\<open>True\<close> for status 200 and \<^verbatim>\<open>None\<close> otherwise.\<close>

definition get_sign :: "env \<Rightarrow> obj \<Rightarrow> world \<Rightarrow> (exn + bool option) \<times> world" where
  "get_sign E self w =
     (case getattr self ''key_url'' of
        Inl e \<Rightarrow> (Inl e, w)
      | Inr key_url \<Rightarrow>
          (case getattr self ''package_sign_path'' of
             Inl e \<Rightarrow> (Inl e, w)
           | Inr None \<Rightarrow> (Inl TypeError, w)
           | Inr (Some sp) \<Rightarrow>
               (case attempt_to_download E key_url sp w of
                  (Inl e, w1) \<Rightarrow> (Inl e, w1)
                | (Inr code, w1) \<Rightarrow>
                    if code = Some 200 then (Inr (Some True), w1)
                    else (Inr None,
                          print_error (''Unable to download file '' @ str_opt key_url
                                       @ '' http code '' @ str_opt (map_option str_int code)) w1))))"

text \<open>
  \<^verbatim>\<open>GPGVerifier.verify\<close> returns \<^verbatim>\<open>True\<close> after a good signature and \<^verbatim>\<open>None\<close>
  on every other path that does not raise.
\<close>

definition GPGVerifier_verify :: "env \<Rightarrow> obj \<Rightarrow> world \<Rightarrow> (exn + bool option) \<times> world" where
  "GPGVerifier_verify E self w =
     (let w1 = print (''Performing GPG signature verification for package'' @ [CHR 0x0A]) w in
      case getattr self ''package_path'' of
        Inl e \<Rightarrow> (Inl e, w1)
      | Inr package_path \<Rightarrow>
      (case path_exists w1 package_path of
        Inl e \<Rightarrow> (Inl e, w1)
      | Inr False \<Rightarrow>
          (case print_result self False (str_opt package_path @ '' not found'') w1 of
             (Inl e, w2) \<Rightarrow> (Inl e, w2)
           | (Inr u, w2) \<Rightarrow> (Inr None, w2))
      | Inr True \<Rightarrow>
      (case getattr self ''package_sign_path'' of
        Inl e \<Rightarrow> (Inl e, w1)
      | Inr package_sign_path \<Rightarrow>
      (case (case path_exists w1 package_sign_path of
               Inl e \<Rightarrow> (Inl e, w1)
             | Inr True \<Rightarrow> (Inr True, w1)
             | Inr False \<Rightarrow>
                 (case get_sign E self w1 of
                    (Inl e, w2) \<Rightarrow> (Inl e, w2)
                  | (Inr got, w2) \<Rightarrow> (Inr (got = Some True), w2))) of
        (Inl e, w2) \<Rightarrow> (Inl e, w2)
      | (Inr False, w2) \<Rightarrow>
          (case print_result self False (str_opt package_sign_path @ '' not found'') w2 of
             (Inl e, w3) \<Rightarrow> (Inl e, w3)
           | (Inr u, w3) \<Rightarrow> (Inr None, w3))
      | (Inr True, w2) \<Rightarrow>
      (case get_pubkey_path E self w2 of
        (Inl e, w3) \<Rightarrow> (Inl e, w3)
      | (Inr pub_key, w3) \<Rightarrow>
          if \<not> exists w3 pub_key then
            (case get_keyid E (str_opt package_sign_path) w3 of
               (Inl e, w4) \<Rightarrow> (Inl e, w4)
             | (Inr key_id, w4) \<Rightarrow>
                 (case print_result self False
                         (''Public key '' @ key_id @ '' not found in keyring'') w4 of
                    (Inl e, w5) \<Rightarrow> (Inl e, w5)
                  | (Inr u, w5) \<Rightarrow> (Inr None, w5)))
          else
            (case (if GPG_CLI E then verify_cli else verify_gpgme)
                    E (Some pub_key) (str_opt package_path) (str_opt package_sign_path) None w3 of
               (Inl e, w4) \<Rightarrow> (Inl e, w4)
             | (Inr None, w4) \<Rightarrow>
                 (case print_result self (str_opt package_path \<noteq> []) [] w4 of
                    (Inl e, w5) \<Rightarrow> (Inl e, w5)
                  | (Inr u, w5) \<Rightarrow> (Inr (Some True), w5))
             | (Inr (Some strerror), w4) \<Rightarrow>
                 (case print_result self False strerror w4 of
                    (Inl e, w5) \<Rightarrow> (Inl e, w5)
                  | (Inr u, w5) \<Rightarrow> (Inr None, w5))))))))"

subsection \<open>The registry-digest strategy\<close>

text \<open>
  \<^verbatim>\<open>re.split('-\d+\.', s)\<close>. The pattern matches at a position exactly when a
  hyphen there is followed by a maximal, non-empty run of digits and then a dot;
  \<open>match_version\<close> gives the length of that match. Matches are taken leftmost
  first and do not overlap, and the result has one piece more than there are
  matches.
\<close>

definition isdigit :: "char \<Rightarrow> bool" where
  "isdigit c \<longleftrightarrow> c \<in> set ''0123456789''"

definition match_version :: "string \<Rightarrow> nat option" where
  "match_version s =
     (case s of
        [] \<Rightarrow> None
      | c # rest \<Rightarrow>
          if c = CHR ''-'' then
            (case dropWhile isdigit rest of
               [] \<Rightarrow> None
             | d # after \<Rightarrow>
                 if takeWhile isdigit rest \<noteq> [] \<and> d = CHR ''.''
                 then Some (length (takeWhile isdigit rest) + 2)
                 else None)
          else None)"


function re_split_from :: "string \<Rightarrow> string \<Rightarrow> string list" where
  "re_split_from piece [] = [piece]"
| "re_split_from piece (c # cs) =
     (case match_version (c # cs) of
        Some n \<Rightarrow> piece # re_split_from [] (drop n (c # cs))
      | None \<Rightarrow> re_split_from (piece @ [c]) cs)"
  by pat_completeness auto
termination
  by (relation "measure (\<lambda>(piece, s). length s)")
     (auto simp: match_version_def split: if_splits list.splits)

definition re_split :: "string \<Rightarrow> string list" where
  "re_split s = re_split_from [] s"

definition RUBYORG_API :: "string \<Rightarrow> string" where
  "RUBYORG_API name = ''https://rubygems.org/api/v1/versions/'' @ name @ ''.json''"

text \<open>
  \<^verbatim>\<open>get_rubygems_info\<close> has no exception handler: a \<^verbatim>\<open>pycurl.error\<close> from
  \<^verbatim>\<open>perform\<close> and a decoding error from \<^verbatim>\<open>json.loads\<close> leave the function.
\<close>

definition get_rubygems_info :: "env \<Rightarrow> string \<Rightarrow> exn + pyval" where
  "get_rubygems_info E package_name =
     (case curl_perform E (Some (RUBYORG_API package_name)) of
        CurlError written args \<Rightarrow> Inl PycurlError
      | CurlDone data code \<Rightarrow>
          (case json_loads E data of
             None \<Rightarrow> Inl JSONDecodeError
           | Some json_data \<Rightarrow> Inr json_data))"

text \<open>
  Iterating a value (\<^verbatim>\<open>for gem in gems\<close>) and calling \<^verbatim>\<open>.get\<close> on one, as Python
  does for each type that \<^verbatim>\<open>json.loads\<close> can return.
\<close>

definition py_iter :: "pyval \<Rightarrow> exn + pyval list" where
  "py_iter v =
     (case v of
        PList xs \<Rightarrow> Inr xs
      | PDict kvs \<Rightarrow> Inr (map (\<lambda>kv. PStr (fst kv)) kvs)
      | PStr cs \<Rightarrow> Inr (map (\<lambda>c. PStr [c]) cs)
      | _ \<Rightarrow> Inl TypeError)"

definition py_get :: "pyval \<Rightarrow> string \<Rightarrow> pyval \<Rightarrow> exn + pyval" where
  "py_get v k dflt =
     (case v of
        PDict kvs \<Rightarrow> Inr (case map_of kvs k of None \<Rightarrow> dflt | Some x \<Rightarrow> x)
      | _ \<Rightarrow> Inl AttributeError)"

text \<open>
  The comprehension \<^verbatim>\<open>[gem for gem in gems if gem.get('number', -100) == number]\<close>.
  The right-hand side of \<^verbatim>\<open>==\<close> is a string, so only an equal string is equal
  to it.
\<close>

fun select_gems :: "pyval list \<Rightarrow> string \<Rightarrow> exn + pyval list" where
  "select_gems [] number = Inr []"
| "select_gems (gem # gems) number =
     (case py_get gem ''number'' (PInt (- 100)) of
        Inl e \<Rightarrow> Inl e
      | Inr v \<Rightarrow>
          (case select_gems gems number of
             Inl e \<Rightarrow> Inl e
           | Inr rest \<Rightarrow> Inr (if v = PStr number then gem # rest else rest)))"

definition get_gemnumber_sha :: "pyval \<Rightarrow> string \<Rightarrow> exn + pyval" where
  "get_gemnumber_sha gems number =
     (case py_iter gems of
        Inl e \<Rightarrow> Inl e
      | Inr xs \<Rightarrow>
          (case select_gems xs number of
             Inl e \<Rightarrow> Inl e
           | Inr mygem \<Rightarrow>
               (case mygem of
                  [gem] \<Rightarrow> py_get gem ''sha'' PNone
                | _ \<Rightarrow> Inr PNone)))"

text \<open>
  \<^verbatim>\<open>calc_sha\<close>. The hash object is the bytes fed to it so far (repeated
  \<^verbatim>\<open>update\<close> calls are one call on the concatenation) and \<^verbatim>\<open>hexdigest\<close> is
  \<open>sha256_hex\<close> of them. \<^verbatim>\<open>gem.read(n)\<close> on a regular file returns the next
  \<open>n\<close> bytes, fewer at the end, and the loop stops at the first empty read.
\<close>

definition BLOCK_SIZE :: nat where
  "BLOCK_SIZE = 4096"

function read_blocks :: "nat \<Rightarrow> string \<Rightarrow> string \<Rightarrow> string" where
  "read_blocks n rest fed =
     (let block = take n rest in
      if block = [] then fed
      else read_blocks n (drop n rest) (fed @ block))"
  by pat_completeness auto
termination
  by (relation "measure (\<lambda>(n, rest, fed). length rest)") auto

declare read_blocks.simps [simp del]

definition calc_sha :: "env \<Rightarrow> path \<Rightarrow> world \<Rightarrow> exn + string" where
  "calc_sha E gemfile_path w =
     (case files w gemfile_path of
        None \<Rightarrow> Inl OSError
      | Some content \<Rightarrow> Inr (sha256_hex E (read_blocks BLOCK_SIZE content [])))"

text \<open>
  \<^verbatim>\<open>GEMShaVerifier.__init__\<close> only runs \<^verbatim>\<open>Verifier.__init__\<close>, which assigns
  \<^verbatim>\<open>url\<close> and \<^verbatim>\<open>package_sign_path\<close>; \<^verbatim>\<open>verify\<close> reads \<^verbatim>\<open>self.package_path\<close>.
\<close>

definition GEMShaVerifier_init :: "obj \<Rightarrow> world \<Rightarrow> (exn + obj) \<times> world" where
  "GEMShaVerifier_init kwargs w =
     (case Verifier_init kwargs w of (self0, w1) \<Rightarrow> (Inr self0, w1))"

text \<open>
  The first three assignments of \<^verbatim>\<open>GEMShaVerifier.verify\<close>: the gem name from
  the base name, the package name from \<^verbatim>\<open>re.split\<close> on the whole path (unpacked
  into exactly two names), and the version number.
\<close>

definition gem_name_number :: "string \<Rightarrow> exn + string \<times> string \<times> string" where
  "gem_name_number package_path =
     (let gemname = replace (basename package_path) ''.gem'' [] in
      case re_split package_path of
        [name, rest] \<Rightarrow> Inr (gemname, name, replace gemname (name @ ''-'') [])
      | _ \<Rightarrow> Inl ValueError)"

definition GEMShaVerifier_verify :: "env \<Rightarrow> obj \<Rightarrow> world \<Rightarrow> (exn + bool option) \<times> world" where
  "GEMShaVerifier_verify E self w =
     (let w1 = print (''Performing SHA256 checksum for package'' @ [CHR 0x0A]) w in
      case getattr self ''package_path'' of
        Inl e \<Rightarrow> (Inl e, w1)
      | Inr None \<Rightarrow> (Inl TypeError, w1)
      | Inr (Some package_path) \<Rightarrow>
          (case gem_name_number package_path of
             Inl e \<Rightarrow> (Inl e, w1)
           | Inr (gemname, name, number) \<Rightarrow>
               (case get_rubygems_info E name of
                  Inl e \<Rightarrow> (Inl e, w1)
                | Inr geminfo \<Rightarrow>
                    (case get_gemnumber_sha geminfo number of
                       Inl e \<Rightarrow> (Inl e, w1)
                     | Inr gemsha \<Rightarrow>
                         if geminfo = PNone
                         then (Inr None,
                               print_error (''unable to parse info for gem '' @ gemname) w1)
                         else
                           (case calc_sha E package_path w1 of
                              Inl e \<Rightarrow> (Inl e, w1)
                            | Inr calcsha \<Rightarrow>
                                (case print_result self (gemsha = PStr calcsha) [] w1 of
                                   (Inl e, w2) \<Rightarrow> (Inl e, w2)
                                 | (Inr u, w2) \<Rightarrow>
                                     (Inr (Some (gemsha = PStr calcsha)), w2)))))))"

subsection \<open>Entry points\<close>

definition construct :: "verifier_class \<Rightarrow> obj \<Rightarrow> world \<Rightarrow> (exn + obj) \<times> world" where
  "construct cls kwargs w =
     (case cls of
        GPGVerifier \<Rightarrow> GPGVerifier_init kwargs w
      | GEMShaVerifier \<Rightarrow> GEMShaVerifier_init kwargs w)"

definition verify :: "verifier_class \<Rightarrow> env \<Rightarrow> obj \<Rightarrow> world \<Rightarrow> (exn + bool option) \<times> world" where
  "verify cls E self w =
     (case cls of
        GPGVerifier \<Rightarrow> GPGVerifier_verify E self w
      | GEMShaVerifier \<Rightarrow> GEMShaVerifier_verify E self w)"

text \<open>\<^verbatim>\<open>posixpath.join\<close> of two components.\<close>

definition join :: "string \<Rightarrow> string \<Rightarrow> string" where
  "join a b =
     (if take 1 b = ''/'' then b
      else if a = [] \<or> last a = CHR ''/'' then a @ b
      else a @ ''/'' @ b)"

text \<open>
  When \<^verbatim>\<open>verify\<close> returns, the only reference to the instance goes away and
  \<^verbatim>\<open>__del__\<close> prints the separator; after an exception the traceback keeps the
  instance alive, and nothing is printed here.
\<close>

definition from_url :: "env \<Rightarrow> string \<Rightarrow> string \<Rightarrow> world \<Rightarrow> (exn + bool option) \<times> world" where
  "from_url E url download_path w =
     (let package_name = basename url;
          package_path = join download_path package_name
      in case get_verifier package_name of
           None \<Rightarrow>
             (Inr None, print_error (''File '' @ package_name @ '' is not verifiable (yet)'') w)
         | Some verifier \<Rightarrow>
             (case construct verifier
                     [''package_path'' \<mapsto> Some package_path, ''url'' \<mapsto> Some url] w of
                (Inl e, w1) \<Rightarrow> (Inl e, w1)
              | (Inr v, w1) \<Rightarrow>
                  (case verify verifier E v w1 of
                     (Inl e, w2) \<Rightarrow> (Inl e, w2)
                   | (Inr r, w2) \<Rightarrow> (Inr r, print SEPT w2))))"

definition from_disk ::
  "env \<Rightarrow> string \<Rightarrow> string option \<Rightarrow> world \<Rightarrow> (exn + bool option) \<times> world" where
  "from_disk E package_path package_check w =
     (case get_verifier package_path of
        None \<Rightarrow> (Inr None, print (''File '' @ package_path @ '' is not verifiable'') w)
      | Some verifier \<Rightarrow>
          (case construct verifier
                  [''package_path'' \<mapsto> Some package_path,
                   ''package_check'' \<mapsto> package_check] w of
             (Inl e, w1) \<Rightarrow> (Inl e, w1)
           | (Inr v, w1) \<Rightarrow>
               (case verify verifier E v w1 of
                  (Inl e, w2) \<Rightarrow> (Inl e, w2)
                | (Inr r, w2) \<Rightarrow> (Inr r, print SEPT w2))))"

subsection \<open>A concrete world for the examples\<close>

text \<open>
  A stand-in for gpg that lists a signature file by printing its contents, imports
  any key and rejects every signature; a registry that knows the gems \<open>bar\<close> and
  \<open>baz\<close>; a digest function that only tags its input.
\<close>

definition example_popen :: "(path \<rightharpoonup> string) \<Rightarrow> path option \<Rightarrow> string list \<Rightarrow> proc_result" where
  "example_popen fs home args =
     (case args of
        [prog, cmd, a] \<Rightarrow>
          if cmd = ''--list-packet'' then
            (case fs a of
               None \<Rightarrow> Exited [] (''gpg: cannot open '' @ a) 2
             | Some listing \<Rightarrow> Exited listing [] 0)
          else Exited [] [] 0
      | _ \<Rightarrow> Exited [] ''gpg: BAD signature'' 1)"

definition example_curl :: "string option \<Rightarrow> curl_result" where
  "example_curl u =
     (if u = Some (RUBYORG_API ''bar'') then CurlDone ''bar-releases'' 200
      else if u = Some (RUBYORG_API ''baz'') then CurlDone ''baz-releases'' 200
      else if u = Some (RUBYORG_API ''nope'') then CurlDone ''This rubygem could not be found.'' 404
      else CurlError ''<html'' ''(7, connection refused)'')"

definition example_json :: "string \<Rightarrow> pyval option" where
  "example_json s =
     (if s = ''bar-releases'' then
        Some (PList [PDict [(''number'', PStr ''2.0.0''), (''sha'', PStr ''sha256:gembytes'')],
                     PDict [(''number'', PStr ''1.9.0''), (''sha'', PStr ''sha256:older'')]])
      else if s = ''baz-releases'' then
        Some (PList [PDict [(''number'', PStr ''0.1.0''), (''sha'', PStr ''sha256:gembytes'')]])
      else None)"

definition example_env :: env where
  "example_env =
     \<lparr>GPG_CLI = True,
      module_dir = ''/opt/autospec'',
      popen = example_popen,
      mkdtemp_name = ''/tmp/tmp.gpghome1'',
      writable = (\<lambda>p. True),
      curl_perform = example_curl,
      json_loads = example_json,
      sha256_hex = (\<lambda>s. ''sha256:'' @ s),
      gpgme_context = None,
      gpgme_import = (\<lambda>home keydata. None),
      gpgme_verify = (\<lambda>home sigdata tardata. Inr None)\<rparr>"

definition example_world :: world where
  "example_world =
     \<lparr>files = [''foo-1.2.3.tar.gz'' \<mapsto> ''tarball'',
               ''foo-1.2.3.tar.gz.asc'' \<mapsto>
                 '':signature packet: algo 1, keyid 1a2b3c4d5e6f7a8b'' @ [CHR 0x0A]
                 @ ''version 4, created 1, md5len 0, sigclass 0x00'' @ [CHR 0x0A],
               ''bar-2.0.0.gem'' \<mapsto> ''gembytes'',
               ''baz-3.1.4.gem'' \<mapsto> ''gembytes'',
               ''signer.pub'' \<mapsto> ''public key''],
      dirs = {''/srv/keys''},
      GNUPGHOME = None,
      printed = [],
      engine_log = []\<rparr>"

definition example_gpg_verifier :: obj where
  "example_gpg_verifier =
     [''url'' \<mapsto> None,
      ''package_sign_path'' \<mapsto> Some ''foo-1.2.3.tar.gz.asc'',
      ''key_url'' \<mapsto> None,
      ''package_path'' \<mapsto> Some ''foo-1.2.3.tar.gz'']"

text \<open>
  A registry-digest verifier whose \<^verbatim>\<open>package_path\<close> attribute has been assigned
  after construction.
\<close>

definition example_gem_verifier :: "string \<Rightarrow> obj" where
  "example_gem_verifier p =
     [''url'' \<mapsto> None, ''package_sign_path'' \<mapsto> None, ''package_path'' \<mapsto> Some p]"

section \<open>Properties\<close>

subsection \<open>Dispatch by extension\<close>

lemma from_disk_unknown_extension:
  "get_verifier package_path = None \<Longrightarrow>
   from_disk E package_path package_check w
   = (Inr None, print (''File '' @ package_path @ '' is not verifiable'') w)"
  by (simp add: from_disk_def)

lemma from_url_unknown_extension:
  "get_verifier (basename url) = None \<Longrightarrow>
   from_url E url download_path w
   = (Inr None, print_error (''File '' @ basename url @ '' is not verifiable (yet)'') w)"
  by (simp add: from_url_def Let_def)

text \<open>
  C7. \<^verbatim>\<open>get_verifier\<close> returns the GPG signature strategy when the extension of the
  file name is \<^verbatim>\<open>.gz\<close>, the registry-digest strategy when it is \<^verbatim>\<open>.gem\<close>, and
  \<^verbatim>\<open>None\<close> for every other extension. The result is a class, never an instance,
  and the function has no raising branch. For a file without a strategy the two
  entry points print one line and return \<^verbatim>\<open>None\<close>: no constructor runs (the
  separator a constructor prints is absent) and nothing is raised.
\<close>

theorem get_verifier_dispatch:
  "get_verifier filename =
     (if get_file_ext filename = ''.gz'' then Some GPGVerifier
      else if get_file_ext filename = ''.gem'' then Some GEMShaVerifier
      else None)
   \<and> (get_verifier filename = None \<longrightarrow>
        from_disk E filename package_check w
        = (Inr None, print (''File '' @ filename @ '' is not verifiable'') w))
   \<and> (get_verifier (basename url) = None \<longrightarrow>
        from_url E url download_path w
        = (Inr None, print_error (''File '' @ basename url @ '' is not verifiable (yet)'') w))"
  by (simp add: get_verifier_def VERIFIER_TYPES_def from_disk_unknown_extension
        from_url_unknown_extension)

theorem get_verifier_dispatch_witness:
  "get_verifier ''foo-1.2.3.tar.gz'' = Some GPGVerifier
   \<and> get_verifier ''bar-2.0.0.gem'' = Some GEMShaVerifier
   \<and> get_verifier ''notes.txt'' = None
   \<and> get_verifier ''.gz'' = None
   \<and> from_disk example_env ''notes.txt'' None example_world
       = (Inr None, print ''File notes.txt is not verifiable'' example_world)
   \<and> from_url example_env ''https://example.org/notes.txt'' ''/tmp'' example_world
       = (Inr None, print_error ''File notes.txt is not verifiable (yet)'' example_world)"
proof -
  have b: "basename ''https://example.org/notes.txt'' = ''notes.txt''"
    by (simp add: basename_def rfind_def)
  have e: "get_file_ext ''foo-1.2.3.tar.gz'' = ''.gz''" "get_file_ext ''bar-2.0.0.gem'' = ''.gem''"
    "get_file_ext ''notes.txt'' = ''.txt''" "get_file_ext ''.gz'' = []"
    by (simp_all add: get_file_ext_def splitext_def rfind_def splitext_loop.simps)
  show ?thesis
    using get_verifier_dispatch [of "''foo-1.2.3.tar.gz''"]
          get_verifier_dispatch [of "''bar-2.0.0.gem''"]
          get_verifier_dispatch [of "''.gz''"]
          get_verifier_dispatch
            [of "''notes.txt''" example_env None example_world
                "''https://example.org/notes.txt''" "''/tmp''"]
    by (simp add: b e)
qed

subsection \<open>The digest engine\<close>

lemma read_blocks_all: "0 < n \<Longrightarrow> read_blocks n rest fed = fed @ rest"
proof (induction n rest fed rule: read_blocks.induct)
  case (1 n rest fed)
  show ?case
  proof (cases "take n rest = []")
    case True
    with "1.prems" have "rest = []" by (cases rest) auto
    then show ?thesis by (simp add: read_blocks.simps [of n "[]" fed])
  next
    case False
    with "1.IH" [OF refl False "1.prems"] show ?thesis
      by (simp add: read_blocks.simps [of n rest fed] Let_def)
  qed
qed

lemma calc_sha_file:
  "files w p = Some content \<Longrightarrow> calc_sha E p w = Inr (sha256_hex E content)"
  by (simp add: calc_sha_def read_blocks_all BLOCK_SIZE_def)

text \<open>
  C8. \<^verbatim>\<open>calc_sha\<close> is content-addressed: for a readable file it returns the
  SHA-256 hex digest of the whole contents, so two files with the same bytes
  (under any path, in any state of the world) get the same digest; and the block
  loop feeds the hash exactly the file contents for every positive block size, so
  the streamed digest is the digest of the contents hashed at once.
\<close>

theorem calc_sha_content_addressed:
  "(files w p = Some content \<longrightarrow> calc_sha E p w = Inr (sha256_hex E content))
   \<and> (files w p = Some content \<and> files w' p' = Some content
        \<longrightarrow> calc_sha E p w = calc_sha E p' w')
   \<and> (0 < n \<longrightarrow> sha256_hex E (read_blocks n content []) = sha256_hex E content)"
  by (simp add: calc_sha_file read_blocks_all)

theorem calc_sha_content_addressed_witness:
  "files example_world ''bar-2.0.0.gem'' = Some ''gembytes''
   \<and> files example_world ''baz-3.1.4.gem'' = Some ''gembytes''
   \<and> calc_sha example_env ''bar-2.0.0.gem'' example_world = Inr ''sha256:gembytes''
   \<and> calc_sha example_env ''bar-2.0.0.gem'' example_world
       = calc_sha example_env ''baz-3.1.4.gem'' example_world
   \<and> (0::nat) < 3
   \<and> sha256_hex example_env (read_blocks 3 ''gembytes'' []) = ''sha256:gembytes''"
proof -
  have f1: "files example_world ''bar-2.0.0.gem'' = Some ''gembytes''"
    and f2: "files example_world ''baz-3.1.4.gem'' = Some ''gembytes''"
    by (simp_all add: example_world_def)
  have h: "sha256_hex example_env = (\<lambda>s. ''sha256:'' @ s)"
    by (simp add: example_env_def)
  show ?thesis
    using calc_sha_content_addressed
            [of example_world "''bar-2.0.0.gem''" "''gembytes''" example_env
                example_world "''baz-3.1.4.gem''" 3]
          f1 f2
    by (auto simp: h)
qed

subsection \<open>The fetcher\<close>

text \<open>
  C2, where the code departs from the specification. When \<^verbatim>\<open>curl.perform()\<close>
  raises \<^verbatim>\<open>pycurl.error\<close>, \<^verbatim>\<open>attempt_to_download\<close> returns \<^verbatim>\<open>None\<close> without
  raising, but the destination file is still there afterwards, holding whatever
  was written before the error. The specification says the file is deleted.
\<close>

theorem attempt_to_download_transport_error:
  assumes "writable E dest" and "curl_perform E url = CurlError written args"
  shows "fst (attempt_to_download E url dest w) = Inr None
         \<and> files (snd (attempt_to_download E url dest w)) dest = Some written"
  using assms by (simp add: attempt_to_download_def Let_def print_def)

theorem attempt_to_download_transport_error_witness:
  "writable example_env ''foo.asc''
   \<and> curl_perform example_env (Some ''https://example.org/foo.asc'')
       = CurlError ''<html'' ''(7, connection refused)''
   \<and> files example_world ''foo.asc'' = None
   \<and> fst (attempt_to_download example_env (Some ''https://example.org/foo.asc'') ''foo.asc''
            example_world) = Inr None
   \<and> files (snd (attempt_to_download example_env (Some ''https://example.org/foo.asc'')
                    ''foo.asc'' example_world)) ''foo.asc'' = Some ''<html''"
  using attempt_to_download_transport_error
          [of example_env "''foo.asc''" "Some ''https://example.org/foo.asc''"
              "''<html''" "''(7, connection refused)''" example_world]
  by (simp add: example_env_def example_world_def example_curl_def RUBYORG_API_def)

text \<open>
  The sibling path: after a transfer that ends
  with a status other than 200 the destination file is unlinked and the status is
  returned.
\<close>

lemma attempt_to_download_bad_status:
  assumes "writable E dest" and "curl_perform E url = CurlDone content code" and "code \<noteq> 200"
  shows "fst (attempt_to_download E url dest w) = Inr (Some code)
         \<and> files (snd (attempt_to_download E url dest w)) dest = None"
  using assms by (simp add: attempt_to_download_def Let_def)

subsection \<open>Key-identifier extraction\<close>

text \<open>
  C1, where the code departs from the specification. When the packet listing
  writes to stderr, \<^verbatim>\<open>parse_keyid\<close> returns \<^verbatim>\<open>None\<close> and \<^verbatim>\<open>get_keyid\<close> then
  raises \<^verbatim>\<open>AttributeError\<close> on \<^verbatim>\<open>None.upper()\<close>; when the listing has no
  \<^verbatim>\<open>keyid\<close> field, \<^verbatim>\<open>str.index\<close> raises \<^verbatim>\<open>ValueError\<close> out of both functions.
  The specification says a parse failure is a result, not a crash.
\<close>

theorem get_keyid_listing_failure:
  assumes "GPG_CLI E"
    and "popen E (files w) (GNUPGHOME w) [''gpg'', ''--list-packet'', sig_filename]
         = Exited out err code"
  shows "(err \<noteq> [] \<longrightarrow> fst (parse_keyid E sig_filename w) = Inr None
                         \<and> fst (get_keyid E sig_filename w) = Inl AttributeError)
       \<and> (err = [] \<and> find_sub ''keyid'' out = None \<longrightarrow>
            fst (parse_keyid E sig_filename w) = Inl ValueError
            \<and> fst (get_keyid E sig_filename w) = Inl ValueError)"
  using assms by (simp add: get_keyid_def parse_keyid_def index_def)

theorem get_keyid_listing_failure_witness:
  "GPG_CLI example_env
   \<and> popen example_env (files example_world) (GNUPGHOME example_world)
        [''gpg'', ''--list-packet'', ''missing.asc'']
       = Exited [] ''gpg: cannot open missing.asc'' 2
   \<and> fst (parse_keyid example_env ''missing.asc'' example_world) = Inr None
   \<and> fst (get_keyid example_env ''missing.asc'' example_world) = Inl AttributeError
   \<and> popen example_env (files example_world) (GNUPGHOME example_world)
        [''gpg'', ''--list-packet'', ''signer.pub'']
       = Exited ''public key'' [] 0
   \<and> find_sub ''keyid'' ''public key'' = None
   \<and> fst (get_keyid example_env ''signer.pub'' example_world) = Inl ValueError"
  using get_keyid_listing_failure
          [of example_env example_world "''missing.asc''" "[]"
              "''gpg: cannot open missing.asc''" 2]
        get_keyid_listing_failure
          [of example_env example_world "''signer.pub''" "''public key''" "[]" 0]
  by (simp add: example_env_def example_world_def example_popen_def)

text \<open>
  With gpgme importable the name \<^verbatim>\<open>Popen\<close> is never bound, and extraction raises
  \<^verbatim>\<open>NameError\<close> whatever the signature is.
\<close>

lemma get_keyid_without_cli:
  "\<not> GPG_CLI E \<Longrightarrow> fst (get_keyid E sig_filename w) = Inl NameError"
  by (simp add: get_keyid_def parse_keyid_def)

text \<open>
  When the listing exposes the field, the result
  is the text between \<^verbatim>\<open>keyid \<close> and the end of that line, stripped and in upper
  case.
\<close>

lemma get_keyid_exposed:
  assumes "GPG_CLI E"
    and "popen E (files w) (GNUPGHOME w) [''gpg'', ''--list-packet'', sig_filename]
         = Exited out [] code"
    and "find_sub ''keyid'' out = Some i"
    and "find_sub [CHR 0x0A] (drop (i + length ''keyid '') out) = Some j"
  shows "get_keyid E sig_filename w
         = (Inr (upper (strip (take j (drop (i + length ''keyid '') out)))), w)"
  using assms by (simp add: get_keyid_def parse_keyid_def index_def Let_def)

lemma get_keyid_example:
  "get_keyid example_env ''foo-1.2.3.tar.gz.asc'' example_world
   = (Inr ''1A2B3C4D5E6F7A8B'', example_world)"
  by (simp add: get_keyid_def parse_keyid_def index_def Let_def example_env_def
        example_world_def example_popen_def strip_def isspace_def upper_def upper_char_def)

subsection \<open>Temporary keyring directories\<close>

lemma mkdtemp_creates:
  "\<not> exists w (mkdtemp_name E) \<Longrightarrow>
   mkdtemp E w = (Inr (mkdtemp_name E), w\<lparr>dirs := insert (mkdtemp_name E) (dirs w)\<rparr>)"
  by (simp add: mkdtemp_def Let_def)

lemma verify_cli_tmp_removed:
  "\<not> exists w (mkdtemp_name E) \<Longrightarrow>
   \<not> exists (snd (verify_cli E (Some pk) tb sg None w)) (mkdtemp_name E)"
  by (auto simp: verify_cli_def cli_gpg_ctx_def GPGCli_init_def GPGCli_verify_def mkdtemp_def
        rmtree_def exists_def exec_cmd_def Let_def below_def
      split: proc_result.splits option.splits sum.splits prod.splits if_splits)

lemma verify_gpgme_tmp_removed:
  "\<not> exists w (mkdtemp_name E) \<Longrightarrow>
   \<not> exists (snd (verify_gpgme E (Some pk) tb sg None w)) (mkdtemp_name E)"
  by (auto simp: verify_gpgme_def gpg_ctx_def mkdtemp_def
        rmtree_def exists_def Let_def below_def
      split: option.splits sum.splits prod.splits if_splits)

lemma verify_cli_home_kept:
  "d \<in> dirs w \<Longrightarrow> d \<in> dirs (snd (verify_cli E (Some pk) tb sg (Some d) w))"
  by (auto simp: verify_cli_def cli_gpg_ctx_def GPGCli_init_def GPGCli_verify_def mkdtemp_def
        exists_def exec_cmd_def Let_def
      split: proc_result.splits option.splits sum.splits prod.splits if_splits)

lemma verify_gpgme_home_kept:
  "d \<in> dirs w \<Longrightarrow> d \<in> dirs (snd (verify_gpgme E (Some pk) tb sg (Some d) w))"
  by (auto simp: verify_gpgme_def gpg_ctx_def mkdtemp_def exists_def Let_def
      split: option.splits sum.splits prod.splits if_splits)

text \<open>
  C5. For a verification with an explicit public key and no keyring directory
  from the caller, the directory that \<^verbatim>\<open>mkdtemp\<close> creates does not exist when the
  call is over, whatever the import and the verification did (return, fail or
  raise), with either engine. When the caller passes a keyring directory, that
  directory still exists afterwards.
\<close>

theorem temporary_keyring_removed:
  "(\<not> exists w (mkdtemp_name E) \<longrightarrow>
      \<not> exists (snd (verify_cli E (Some pk) tb sg None w)) (mkdtemp_name E)
      \<and> \<not> exists (snd (verify_gpgme E (Some pk) tb sg None w)) (mkdtemp_name E))
   \<and> (d \<in> dirs w \<longrightarrow>
      d \<in> dirs (snd (verify_cli E (Some pk) tb sg (Some d) w))
      \<and> d \<in> dirs (snd (verify_gpgme E (Some pk) tb sg (Some d) w)))"
  by (simp add: verify_cli_tmp_removed verify_gpgme_tmp_removed
        verify_cli_home_kept verify_gpgme_home_kept)

theorem temporary_keyring_removed_witness:
  "\<not> exists example_world (mkdtemp_name example_env)
   \<and> \<not> exists (snd (verify_cli example_env (Some ''signer.pub'') ''foo-1.2.3.tar.gz''
                      ''foo-1.2.3.tar.gz.asc'' None example_world)) (mkdtemp_name example_env)
   \<and> \<not> exists (snd (verify_gpgme example_env (Some ''signer.pub'') ''foo-1.2.3.tar.gz''
                      ''foo-1.2.3.tar.gz.asc'' None example_world)) (mkdtemp_name example_env)
   \<and> ''/srv/keys'' \<in> dirs example_world
   \<and> ''/srv/keys'' \<in> dirs (snd (verify_cli example_env (Some ''signer.pub'')
                      ''foo-1.2.3.tar.gz'' ''foo-1.2.3.tar.gz.asc'' (Some ''/srv/keys'')
                      example_world))
   \<and> ''/srv/keys'' \<in> dirs (snd (verify_gpgme example_env (Some ''signer.pub'')
                      ''foo-1.2.3.tar.gz'' ''foo-1.2.3.tar.gz.asc'' (Some ''/srv/keys'')
                      example_world))"
proof -
  have fresh: "\<not> exists example_world (mkdtemp_name example_env)"
    by (simp add: exists_def example_world_def example_env_def)
  have home: "''/srv/keys'' \<in> dirs example_world"
    by (simp add: example_world_def)
  show ?thesis
    using temporary_keyring_removed
            [of example_world example_env "''signer.pub''" "''foo-1.2.3.tar.gz''"
                "''foo-1.2.3.tar.gz.asc''" "''/srv/keys''"]
          fresh home
    by simp
qed

text \<open>
  Beyond C5: \<^verbatim>\<open>gpg_ctx\<close> makes a temporary directory even when the caller
  passes \<^verbatim>\<open>gpghome\<close>, and in that case never removes it.
\<close>

lemma verify_gpgme_leaves_tmp_with_home:
  "\<not> exists w (mkdtemp_name E) \<Longrightarrow> files w sg \<noteq> None \<Longrightarrow> files w tb \<noteq> None \<Longrightarrow>
   mkdtemp_name E \<in> dirs (snd (verify_gpgme E (Some pk) tb sg (Some d) w))"
  by (auto simp: verify_gpgme_def gpg_ctx_def mkdtemp_def exists_def Let_def
      split: option.splits sum.splits prod.splits if_splits)

subsection \<open>Keys missing from the keyring\<close>

lemma get_keyid_world: "get_keyid E sg w = (Inr k, w') \<Longrightarrow> w' = w"
  by (auto simp: get_keyid_def parse_keyid_def Let_def
      split: if_splits proc_result.splits sum.splits option.splits prod.splits)

lemma get_sign_engine_log: "engine_log (snd (get_sign E self w)) = engine_log w"
  by (auto simp: get_sign_def attempt_to_download_def print_error_def print_def Let_def
      split: if_splits curl_result.splits sum.splits option.splits prod.splits)

text \<open>
  C6. Let the package exist and the signature be located (on disk already, or
  fetched with status 200). If a key identifier is extracted from the signature
  and the keyring has no file for it, \<^verbatim>\<open>GPGVerifier.verify\<close> returns \<^verbatim>\<open>None\<close>,
  its last printed line reports that the public key was not found in the keyring,
  and neither \<^verbatim>\<open>verify_cli\<close> nor \<^verbatim>\<open>verify_gpgme\<close> has been called.
\<close>

theorem GPGVerifier_verify_key_not_found:
  assumes pkg: "getattr self ''package_path'' = Inr (Some pkg)"
    and sg: "getattr self ''package_sign_path'' = Inr (Some sg)"
    and url: "getattr self ''url'' = Inr u"
    and pkg_exists: "exists w pkg"
    and located:
      "(exists w sg \<and>
          w1 = print (''Performing GPG signature verification for package'' @ [CHR 0x0A]) w)
       \<or> (\<not> exists w sg \<and>
          get_sign E self
            (print (''Performing GPG signature verification for package'' @ [CHR 0x0A]) w)
          = (Inr (Some True), w1))"
    and keyid: "get_keyid E sg w1 = (Inr key_id, w2)"
    and missing: "\<not> exists w2 (pubkey_path E key_id)"
  shows "fst (GPGVerifier_verify E self w) = Inr None
         \<and> engine_log (snd (GPGVerifier_verify E self w)) = engine_log w
         \<and> last (printed (snd (GPGVerifier_verify E self w)))
             = [CHR 0x1B] @ ''[91mERROR  :'' @ [CHR 0x1B] @ ''[0m ''
               @ (case u of None \<Rightarrow> [] | Some url \<Rightarrow> basename url)
               @ '' verification failed Public key '' @ key_id @ '' not found in keyring''"
proof -
  let ?w0 = "print (''Performing GPG signature verification for package'' @ [CHR 0x0A]) w"
  have w2: "w2 = w1" using keyid by (rule get_keyid_world)
  have log1: "engine_log w1 = engine_log w"
  proof -
    from located show ?thesis
    proof
      assume "exists w sg \<and> w1 = ?w0"
      then show ?thesis by (simp add: print_def)
    next
      assume a: "\<not> exists w sg \<and> get_sign E self ?w0 = (Inr (Some True), w1)"
      then have "engine_log w1 = engine_log (snd (get_sign E self ?w0))" by simp
      then show ?thesis by (simp add: get_sign_engine_log print_def)
    qed
  qed
  have ex0: "exists ?w0 pkg" using pkg_exists by (simp add: exists_def print_def)
  have exsg: "exists ?w0 sg = exists w sg" by (simp add: exists_def print_def)
  have res: "GPGVerifier_verify E self w =
        (Inr None, print_error ((case u of None \<Rightarrow> [] | Some url \<Rightarrow> basename url)
               @ '' verification failed Public key '' @ key_id @ '' not found in keyring'') w1)"
    using located
  proof
    assume a: "exists w sg \<and> w1 = ?w0"
    then show ?thesis
      using pkg sg url ex0 exsg keyid missing w2
      by (simp add: GPGVerifier_verify_def Let_def path_exists_def get_pubkey_path_def
            print_result_def str_opt_def)
  next
    assume a: "\<not> exists w sg \<and> get_sign E self ?w0 = (Inr (Some True), w1)"
    then show ?thesis
      using pkg sg url ex0 exsg keyid missing w2
      by (simp add: GPGVerifier_verify_def Let_def path_exists_def get_pubkey_path_def
            print_result_def str_opt_def)
  qed
  show ?thesis
    using log1 by (simp add: res print_error_def print_def)
qed

theorem GPGVerifier_verify_key_not_found_witness:
  "exists example_world ''foo-1.2.3.tar.gz''
   \<and> exists example_world ''foo-1.2.3.tar.gz.asc''
   \<and> fst (get_keyid example_env ''foo-1.2.3.tar.gz.asc'' example_world)
       = Inr ''1A2B3C4D5E6F7A8B''
   \<and> \<not> exists example_world (pubkey_path example_env ''1A2B3C4D5E6F7A8B'')
   \<and> fst (GPGVerifier_verify example_env example_gpg_verifier example_world) = Inr None
   \<and> engine_log (snd (GPGVerifier_verify example_env example_gpg_verifier example_world)) = []
   \<and> last (printed (snd (GPGVerifier_verify example_env example_gpg_verifier example_world)))
       = [CHR 0x1B] @ ''[91mERROR  :'' @ [CHR 0x1B] @ ''[0m ''
         @ '' verification failed Public key 1A2B3C4D5E6F7A8B not found in keyring''"
proof -
  let ?w0 = "print (''Performing GPG signature verification for package'' @ [CHR 0x0A])
               example_world"
  have pkg: "getattr example_gpg_verifier ''package_path'' = Inr (Some ''foo-1.2.3.tar.gz'')"
    and sg: "getattr example_gpg_verifier ''package_sign_path''
             = Inr (Some ''foo-1.2.3.tar.gz.asc'')"
    and url: "getattr example_gpg_verifier ''url'' = Inr None"
    by (simp_all add: getattr_def example_gpg_verifier_def)
  have e1: "exists example_world ''foo-1.2.3.tar.gz''"
    and e2: "exists example_world ''foo-1.2.3.tar.gz.asc''"
    by (simp_all add: exists_def example_world_def)
  have k0: "get_keyid example_env ''foo-1.2.3.tar.gz.asc'' example_world
            = (Inr ''1A2B3C4D5E6F7A8B'', example_world)"
    by (simp add: get_keyid_def parse_keyid_def index_def Let_def example_env_def
          example_world_def example_popen_def strip_def isspace_def upper_def upper_char_def)
  have k: "get_keyid example_env ''foo-1.2.3.tar.gz.asc'' ?w0 = (Inr ''1A2B3C4D5E6F7A8B'', ?w0)"
    by (simp add: get_keyid_def parse_keyid_def index_def Let_def example_env_def print_def
          example_world_def example_popen_def strip_def isspace_def upper_def upper_char_def)
  have m0: "\<not> exists example_world (pubkey_path example_env ''1A2B3C4D5E6F7A8B'')"
    by (simp add: exists_def pubkey_path_def example_world_def example_env_def)
  have m: "\<not> exists ?w0 (pubkey_path example_env ''1A2B3C4D5E6F7A8B'')"
    using m0 by (simp add: exists_def print_def)
  have l: "(exists example_world ''foo-1.2.3.tar.gz.asc'' \<and> ?w0 = ?w0)
           \<or> (\<not> exists example_world ''foo-1.2.3.tar.gz.asc'' \<and>
               get_sign example_env example_gpg_verifier ?w0 = (Inr (Some True), ?w0))"
    using e2 by simp
  have log: "engine_log example_world = []" by (simp add: example_world_def)
  show ?thesis
    using GPGVerifier_verify_key_not_found [OF pkg sg url e1 l k m] e1 e2 k0 m0 log
    by simp
qed

text \<open>For contrast: with the key file in the keyring the engine is called.\<close>

lemma GPGVerifier_verify_key_present_example:
  "engine_log (snd (GPGVerifier_verify example_env example_gpg_verifier
      (example_world\<lparr>files := (files example_world)
          (''/opt/autospec/keyring/1A2B3C4D5E6F7A8B.pkey'' \<mapsto> ''public key'')\<rparr>)))
   = [(Some ''/opt/autospec/keyring/1A2B3C4D5E6F7A8B.pkey'',
       ''foo-1.2.3.tar.gz'', ''foo-1.2.3.tar.gz.asc'')]"
  by (simp add: GPGVerifier_verify_def Let_def path_exists_def get_pubkey_path_def
        print_result_def str_opt_def getattr_def example_gpg_verifier_def exists_def
        get_keyid_def parse_keyid_def index_def example_env_def print_def print_error_def
        example_world_def example_popen_def strip_def isspace_def upper_def upper_char_def
        pubkey_path_def verify_cli_def cli_gpg_ctx_def GPGCli_init_def GPGCli_verify_def
        mkdtemp_def rmtree_def exec_cmd_def below_def)

subsection \<open>The signature path of a verifier built by \<open>from_disk\<close>\<close>

text \<open>
  C9. When \<^verbatim>\<open>from_disk\<close> is given a \<^verbatim>\<open>.gz\<close> package, the verifier it constructs
  has the signature path \<^verbatim>\<open>package_path + '.asc'\<close>, and the result and all effects
  of \<^verbatim>\<open>from_disk\<close> are the same for every value of the \<^verbatim>\<open>package_check\<close> argument:
  the argument is passed under a keyword that no constructor reads.
\<close>

theorem from_disk_ignores_package_check:
  assumes "get_verifier package_path = Some GPGVerifier"
  shows "(\<exists>v w1. construct GPGVerifier
                     [''package_path'' \<mapsto> Some package_path, ''package_check'' \<mapsto> c] w
                   = (Inr v, w1)
                 \<and> getattr v ''package_sign_path'' = Inr (Some (package_path @ ''.asc'')))
         \<and> from_disk E package_path c w = from_disk E package_path c' w"
  using assms
  by (simp add: from_disk_def construct_def GPGVerifier_init_def Verifier_init_def
        kwargs_get_def getattr_def Let_def)

theorem from_disk_ignores_package_check_witness:
  "get_verifier ''foo-1.2.3.tar.gz'' = Some GPGVerifier
   \<and> (\<exists>v w1. construct GPGVerifier
                 [''package_path'' \<mapsto> Some ''foo-1.2.3.tar.gz'',
                  ''package_check'' \<mapsto> Some ''elsewhere/foo.sig''] example_world
               = (Inr v, w1)
             \<and> getattr v ''package_sign_path'' = Inr (Some ''foo-1.2.3.tar.gz.asc''))
   \<and> from_disk example_env ''foo-1.2.3.tar.gz'' (Some ''elsewhere/foo.sig'') example_world
       = from_disk example_env ''foo-1.2.3.tar.gz'' None example_world"
proof -
  have gz: "get_verifier ''foo-1.2.3.tar.gz'' = Some GPGVerifier"
    by (simp add: get_verifier_def VERIFIER_TYPES_def get_file_ext_def splitext_def rfind_def
          splitext_loop.simps)
  show ?thesis
    using from_disk_ignores_package_check
            [OF gz, of "Some ''elsewhere/foo.sig''" example_world example_env None]
          gz
    by simp
qed

subsection \<open>Name and version of a gem\<close>













lemma gem_name_number_examples:
  "gem_name_number ''bar-2.0.0.gem'' = Inr (''bar-2.0.0'', ''bar'', ''2.0.0'')"
  "gem_name_number ''/tmp/bar-2.0.0.gem'' = Inr (''bar-2.0.0'', ''/tmp/bar'', ''bar-2.0.0'')"
  "gem_name_number ''pkgs-1.x/foo.gem'' = Inr (''foo'', ''pkgs'', ''foo'')"
  "gem_name_number ''pkgs-1.x/bar-2.0.0.gem'' = Inl ValueError"
  by (simp_all add: gem_name_number_def re_split_def match_version_def isdigit_def
        basename_def rfind_def replace_def Let_def)

subsection \<open>The registry-digest strategy\<close>






text \<open>
  The branch for \<^verbatim>\<open>geminfo is None\<close> is never taken, since iterating \<^verbatim>\<open>None\<close> has
  raised before: \<^verbatim>\<open>verify\<close> never returns \<^verbatim>\<open>None\<close>.
\<close>

lemma GEMShaVerifier_verify_never_None:
  "fst (GEMShaVerifier_verify E self w) \<noteq> Inr None"
  by (auto simp: GEMShaVerifier_verify_def Let_def get_gemnumber_sha_def py_iter_def
        print_result_def
      split: sum.splits option.splits prod.splits if_splits)

text \<open>
  C4, where the code departs from the specification. Neither
  \<^verbatim>\<open>get_rubygems_info\<close> nor \<^verbatim>\<open>verify\<close> has an exception handler: a
  \<^verbatim>\<open>pycurl.error\<close> during the registry query, and a response body that
  \<^verbatim>\<open>json.loads\<close> rejects, leave \<^verbatim>\<open>GEMShaVerifier.verify\<close> as that exception. The
  specification says they are caught and turned into a result.
\<close>

theorem GEMShaVerifier_verify_registry_fault:
  assumes pp: "getattr self ''package_path'' = Inr (Some p)"
    and nn: "gem_name_number p = Inr (gemname, name, number)"
  shows "(curl_perform E (Some (RUBYORG_API name)) = CurlError written args
            \<longrightarrow> fst (GEMShaVerifier_verify E self w) = Inl PycurlError)
       \<and> (curl_perform E (Some (RUBYORG_API name)) = CurlDone data code \<and> json_loads E data = None
            \<longrightarrow> fst (GEMShaVerifier_verify E self w) = Inl JSONDecodeError)"
  using assms by (simp add: GEMShaVerifier_verify_def Let_def get_rubygems_info_def)

theorem GEMShaVerifier_verify_registry_fault_witness:
  "gem_name_number ''nope-1.0.0.gem'' = Inr (''nope-1.0.0'', ''nope'', ''1.0.0'')
   \<and> curl_perform example_env (Some (RUBYORG_API ''nope''))
       = CurlDone ''This rubygem could not be found.'' 404
   \<and> json_loads example_env ''This rubygem could not be found.'' = None
   \<and> fst (GEMShaVerifier_verify example_env (example_gem_verifier ''nope-1.0.0.gem'')
            example_world) = Inl JSONDecodeError
   \<and> gem_name_number ''gone-0.1.gem'' = Inr (''gone-0.1'', ''gone'', ''0.1'')
   \<and> curl_perform example_env (Some (RUBYORG_API ''gone''))
       = CurlError ''<html'' ''(7, connection refused)''
   \<and> fst (GEMShaVerifier_verify example_env (example_gem_verifier ''gone-0.1.gem'')
            example_world) = Inl PycurlError"
proof -
  have pp1: "getattr (example_gem_verifier ''nope-1.0.0.gem'') ''package_path''
             = Inr (Some ''nope-1.0.0.gem'')"
    and pp2: "getattr (example_gem_verifier ''gone-0.1.gem'') ''package_path''
             = Inr (Some ''gone-0.1.gem'')"
    by (simp_all add: getattr_def example_gem_verifier_def)
  have nn1: "gem_name_number ''nope-1.0.0.gem'' = Inr (''nope-1.0.0'', ''nope'', ''1.0.0'')"
    and nn2: "gem_name_number ''gone-0.1.gem'' = Inr (''gone-0.1'', ''gone'', ''0.1'')"
    by (simp_all add: gem_name_number_def re_split_def match_version_def isdigit_def
          basename_def rfind_def replace_def Let_def)
  have c1: "curl_perform example_env (Some (RUBYORG_API ''nope''))
            = CurlDone ''This rubygem could not be found.'' 404"
    and c2: "curl_perform example_env (Some (RUBYORG_API ''gone''))
            = CurlError ''<html'' ''(7, connection refused)''"
    by (simp_all add: example_env_def example_curl_def RUBYORG_API_def)
  have j: "json_loads example_env ''This rubygem could not be found.'' = None"
    by (simp add: example_env_def example_json_def)
  show ?thesis
    using GEMShaVerifier_verify_registry_fault
            [OF pp1 nn1, of example_env "[]" "[]" example_world
                "''This rubygem could not be found.''" 404]
          GEMShaVerifier_verify_registry_fault
            [OF pp2 nn2, of example_env "''<html''" "''(7, connection refused)''" example_world
                "[]" 0]
          nn1 nn2 c1 c2 j
    by simp
qed

text \<open>
  A verifier built by the constructor has no \<^verbatim>\<open>package_path\<close> attribute at all
  (only \<^verbatim>\<open>GPGVerifier.__init__\<close> assigns one), so through \<^verbatim>\<open>from_disk\<close> every
  \<^verbatim>\<open>.gem\<close> package ends in \<^verbatim>\<open>AttributeError\<close> at the first line of
  \<^verbatim>\<open>GEMShaVerifier.verify\<close>. The theorems above are about a verifier that has
  been given the attribute.
\<close>

lemma from_disk_gem_raises:
  "get_verifier package_path = Some GEMShaVerifier \<Longrightarrow>
   fst (from_disk E package_path package_check w) = Inl AttributeError"
  by (simp add: from_disk_def construct_def verify_def GEMShaVerifier_init_def Verifier_init_def
        GEMShaVerifier_verify_def getattr_def Let_def)

end
